theory Spec2Isabelle
  imports Complex_Main "HOL-Library.Code_Target_Numeral"
begin

section \<open>Data model\<close>

text \<open>
  \<^verbatim>\<open>models.py\<close>: a \<^verbatim>\<open>FuelPrice\<close> row has a city, a state and a price per gallon
  (a \<^verbatim>\<open>DecimalField\<close>). Decimals are modelled by their numeric value, a rational.
  The table \<^verbatim>\<open>FuelPrice.objects\<close> is the list of its rows in insertion order; duplicates
  are allowed.
\<close>

record FuelPrice =
  city :: string
  state :: string
  price_per_gallon :: rat

text \<open>
  A fuel stop is the dictionary built in \<^verbatim>\<open>find_optimal_fuel_stops\<close>: the three keys of
  the chosen row and \<^verbatim>\<open>distance_from_start\<close>, a Python \<^verbatim>\<open>int\<close>.
\<close>

record FuelStop = FuelPrice +
  distance_from_start :: int

text \<open>The stored state a request can see: the fuel price table.\<close>

record db =
  fuel_prices :: "FuelPrice list"

text \<open>
  The exceptions of the source. \<^verbatim>\<open>ValidationError\<close> carries one message when a
  \<^verbatim>\<open>validate_<field>\<close> method raises it, \<^verbatim>\<open>FieldErrors\<close> is the \<^verbatim>\<open>ValidationError\<close> the
  serializer raises with the dictionary of the collected messages, keyed by field name.
\<close>

datatype exn =
    ValidationError string
  | FieldErrors "(string \<times> string list) list"
  | ValueError string
  | HTTPError string
  | IndexError
  | KeyError string

section \<open>Constants\<close>

definition VEHICLE_RANGE_MILES :: int where
  "VEHICLE_RANGE_MILES = 500"

definition VEHICLE_MPG :: int where
  "VEHICLE_MPG = 10"

section \<open>Queries on the fuel price table\<close>

text \<open>
  \<^verbatim>\<open>FuelPrice.objects.order_by('price_per_gallon')\<close>: the rows in ascending price order.
  Rows of equal price keep their insertion order (a stable sort).
\<close>

definition order_by_price :: "db \<Rightarrow> FuelPrice list" where
  "order_by_price s = sort_key price_per_gallon (fuel_prices s)"

text \<open>\<^verbatim>\<open>QuerySet.exists()\<close> and \<^verbatim>\<open>QuerySet.first()\<close>.\<close>

definition exists :: "'a list \<Rightarrow> bool" where
  "exists q = (q \<noteq> [])"

definition first :: "'a list \<Rightarrow> 'a option" where
  "first q = (case q of [] \<Rightarrow> None | r # _ \<Rightarrow> Some r)"

section \<open>Fuel stops\<close>

text \<open>
  The \<^verbatim>\<open>for _ in range(stops_required)\<close> loop of \<^verbatim>\<open>find_optimal_fuel_stops\<close>: the first
  argument counts the iterations left, the last two are \<^verbatim>\<open>optimal_stops\<close> and
  \<^verbatim>\<open>current_distance\<close>.
\<close>

fun stops_loop :: "nat \<Rightarrow> FuelPrice list \<Rightarrow> FuelStop list \<Rightarrow> int \<Rightarrow> exn + FuelStop list" where
  "stops_loop 0 q optimal_stops current_distance = Inr optimal_stops"
| "stops_loop (Suc n) q optimal_stops current_distance =
     (case first q of
        None \<Rightarrow> Inl (ValueError ''No available fuel prices.'')
      | Some stop \<Rightarrow>
          stops_loop n q
            (optimal_stops @
              [\<lparr>city = city stop, state = state stop,
                price_per_gallon = price_per_gallon stop,
                distance_from_start = current_distance + VEHICLE_RANGE_MILES\<rparr>])
            (current_distance + VEHICLE_RANGE_MILES))"

text \<open>
  \<^verbatim>\<open>find_optimal_fuel_stops\<close>. The route distance is a Python float, taken at its exact
  rational value; \<^verbatim>\<open>int(route_distance // VEHICLE_RANGE_MILES)\<close> is the floor of the
  quotient, and \<^verbatim>\<open>range\<close> of a negative number is empty. The method only reads the
  table; it returns the table with its result.
\<close>

definition find_optimal_fuel_stops :: "rat \<Rightarrow> db \<Rightarrow> (exn + FuelStop list) \<times> db" where
  "find_optimal_fuel_stops route_distance s =
     (let fuel_prices = order_by_price s in
      if \<not> exists fuel_prices
      then (Inl (ValueError ''No fuel prices available to calculate the total cost.''), s)
      else
        let stops_required = \<lfloor>route_distance / of_int VEHICLE_RANGE_MILES\<rfloor>
        in (stops_loop (nat stops_required) fuel_prices [] 0, s))"

section \<open>Decimal arithmetic\<close>

text \<open>
  \<^verbatim>\<open>decimal.Decimal\<close> under the default context: 28 significant digits, rounding half to
  even. A decimal is modelled by its numeric value; an arithmetic operation computes the
  exact result and rounds it to the precision of the context. The exponent limits of the
  context are far outside the values a float or a price can reach and are not modelled.
\<close>

definition prec :: nat where
  "prec = 28"

text \<open>The number of decimal digits of a natural number.\<close>

fun ndigits :: "nat \<Rightarrow> nat" where
  "ndigits n = (if n < 10 then 1 else Suc (ndigits (n div 10)))"

declare ndigits.simps [simp del]

text \<open>
  \<^verbatim>\<open>Decimal.adjusted()\<close>: the exponent of the most significant digit of a non-zero
  value, the \<open>e\<close> with \<open>10 powi e \<le> \<bar>x\<bar> < 10 powi (e + 1)\<close>.
\<close>

definition adjusted :: "rat \<Rightarrow> int" where
  "adjusted x =
     (let (p, q) = quotient_of \<bar>x\<bar>;
          k = int (ndigits (nat p)) - int (ndigits (nat q))
      in if 10 powi k \<le> \<bar>x\<bar> then k else k - 1)"

definition round_half_even :: "rat \<Rightarrow> int" where
  "round_half_even y =
     (let f = \<lfloor>y\<rfloor>; r = y - of_int f
      in if r < 1 / 2 then f
         else if 1 / 2 < r then f + 1
         else if even f then f else f + 1)"

text \<open>Rounding a value to \<open>p\<close> significant decimal digits, half to even.\<close>

definition round_sig :: "nat \<Rightarrow> rat \<Rightarrow> rat" where
  "round_sig p x =
     (if x = 0 then 0
      else
        let e = adjusted x - (int p - 1)
        in sgn x * of_int (round_half_even (\<bar>x\<bar> / 10 powi e)) * 10 powi e)"

text \<open>Rounding an exact result to the precision of the context.\<close>

definition ctx_round :: "rat \<Rightarrow> rat" where
  "ctx_round x = round_sig prec x"

text \<open>
  \<^verbatim>\<open>Decimal(x)\<close> of a float, an int or a decimal is exact; \<^verbatim>\<open>/\<close> and \<^verbatim>\<open>*\<close> round.
\<close>

definition Decimal :: "rat \<Rightarrow> rat" where
  "Decimal x = x"

definition dec_div :: "rat \<Rightarrow> rat \<Rightarrow> rat" where
  "dec_div a b = ctx_round (a / b)"

definition dec_mul :: "rat \<Rightarrow> rat \<Rightarrow> rat" where
  "dec_mul a b = ctx_round (a * b)"

section \<open>Binary floating point\<close>

text \<open>
  A Python float is a double, modelled by its exact rational value. \<open>float_round\<close> is
  the rounding every float operation and every float literal ends with: to the nearest
  value of 53 significant bits, ties to even. Overflow and subnormal numbers are not
  modelled; coordinates in degrees and distances in miles are far from both.
\<close>

fun nbits :: "nat \<Rightarrow> nat" where
  "nbits n = (if n < 2 then 1 else Suc (nbits (n div 2)))"

declare nbits.simps [simp del]

text \<open>The binary exponent of a non-zero value: \<open>2 powi e \<le> \<bar>x\<bar> < 2 powi (e + 1)\<close>.\<close>

definition exponent2 :: "rat \<Rightarrow> int" where
  "exponent2 x =
     (let (p, q) = quotient_of \<bar>x\<bar>;
          k = int (nbits (nat p)) - int (nbits (nat q))
      in if 2 powi k \<le> \<bar>x\<bar> then k else k - 1)"

definition float_round :: "rat \<Rightarrow> rat" where
  "float_round x =
     (if x = 0 then 0
      else
        let e = exponent2 x - 52
        in sgn x * of_int (round_half_even (\<bar>x\<bar> / 2 powi e)) * 2 powi e)"

text \<open>Float division \<^verbatim>\<open>a / b\<close> for \<open>b \<noteq> 0\<close>.\<close>

definition float_div :: "rat \<Rightarrow> rat \<Rightarrow> rat" where
  "float_div a b = float_round (a / b)"

section \<open>Total cost\<close>

text \<open>
  \<^verbatim>\<open>FuelPrice.objects.aggregate(models.Avg('price_per_gallon'))['price_per_gallon__avg']\<close>:
  \<^verbatim>\<open>None\<close> on an empty table, else what the database's \<^verbatim>\<open>AVG\<close> gives for the column of
  prices. The database engine is not part of the source, and the digits it keeps of an
  average differ between engines: its \<^verbatim>\<open>AVG\<close> over a non-empty column is the parameter
  \<open>avg\<close>.
\<close>

definition aggregate_avg :: "(rat list \<Rightarrow> rat) \<Rightarrow> db \<Rightarrow> rat option" where
  "aggregate_avg avg s =
     (if fuel_prices s = [] then None
      else Some (avg (map price_per_gallon (fuel_prices s))))"

text \<open>\<^verbatim>\<open>calculate_total_cost\<close>: the division comes first, the check of the average second.\<close>

definition calculate_total_cost :: "(rat list \<Rightarrow> rat) \<Rightarrow> rat \<Rightarrow> db \<Rightarrow> (exn + rat) \<times> db" where
  "calculate_total_cost avg route_distance s =
     (let total_gallons = dec_div (Decimal route_distance) (Decimal (of_int VEHICLE_MPG))
      in case aggregate_avg avg s of
           None \<Rightarrow> (Inl (ValueError ''No fuel prices available to calculate the total cost.''), s)
         | Some average_fuel_price \<Rightarrow>
             (Inr (dec_mul total_gallons (Decimal average_fuel_price)), s))"

section \<open>Location validation\<close>

text \<open>
  The geocoding service answers a location name with an HTTP error or with a list of
  candidates, each a latitude and a longitude, here the doubles that \<^verbatim>\<open>float(...)\<close> makes
  of the two fields.
\<close>

datatype geo_response = GeoHTTPError string | GeoData "(rat \<times> rat) list"

text \<open>
  \<^verbatim>\<open>geocode_location\<close>, given the answer of the service to this call. The message is the
  f-string \<^verbatim>\<open>Location '{location}' could not be geocoded.\<close>
\<close>

definition geocode_location :: "(string \<Rightarrow> geo_response) \<Rightarrow> string \<Rightarrow> exn + rat \<times> rat" where
  "geocode_location answer location =
     (case answer location of
        GeoHTTPError m \<Rightarrow> Inl (HTTPError m)
      | GeoData [] \<Rightarrow>
          Inl (ValueError (''Location '' @ CHR 0x27 # location @ CHR 0x27 # '' could not be geocoded.''))
      | GeoData ((lat, lon) # _) \<Rightarrow> Inr (lat, lon))"

text \<open>
  \<^verbatim>\<open>is_within_usa\<close> compares doubles with the doubles of the four literals
  \<^verbatim>\<open>24.396308\<close>, \<^verbatim>\<open>49.384358\<close>, \<^verbatim>\<open>-125.0\<close> and \<^verbatim>\<open>-66.93457\<close>.
\<close>

definition is_within_usa :: "rat \<Rightarrow> rat \<Rightarrow> bool" where
  "is_within_usa lat lon =
     ((float_round 24.396308 \<le> lat \<and> lat \<le> float_round 49.384358) \<and>
      (float_round (- 125.0) \<le> lon \<and> lon \<le> float_round (- 66.93457)))"

definition validate_start_location :: "(string \<Rightarrow> geo_response) \<Rightarrow> string \<Rightarrow> exn + string" where
  "validate_start_location answer v =
     (case geocode_location answer v of
        Inl e \<Rightarrow> Inl e
      | Inr (lat, lon) \<Rightarrow>
          if \<not> is_within_usa lat lon
          then Inl (ValidationError
                 (''Start location '' @ CHR 0x27 # v @ CHR 0x27 # '' is not within the USA.''))
          else Inr v)"

definition validate_finish_location :: "(string \<Rightarrow> geo_response) \<Rightarrow> string \<Rightarrow> exn + string" where
  "validate_finish_location answer v =
     (case geocode_location answer v of
        Inl e \<Rightarrow> Inl e
      | Inr (lat, lon) \<Rightarrow>
          if \<not> is_within_usa lat lon
          then Inl (ValidationError
                 (''Finish location '' @ CHR 0x27 # v @ CHR 0x27 # '' is not within the USA.''))
          else Inr v)"

text \<open>
  The serializer's field loop (\<^verbatim>\<open>Serializer.to_internal_value\<close> of the framework): each
  declared field's \<^verbatim>\<open>validate_<field>\<close> method runs in declaration order; a
  \<^verbatim>\<open>ValidationError\<close> is stored under the field's name and the loop goes on, any other
  exception leaves the loop at once. After the loop the collected errors, if any, are
  raised together. The arguments are the fields left (name, method, value), the validated
  values so far and the errors so far.
\<close>

fun run_fields ::
  "(string \<times> (string \<Rightarrow> exn + string) \<times> string) list \<Rightarrow> (string \<times> string) list \<Rightarrow>
   (string \<times> string list) list \<Rightarrow> exn + (string \<times> string) list" where
  "run_fields [] ret errors = (if errors \<noteq> [] then Inl (FieldErrors errors) else Inr ret)"
| "run_fields ((name, validate_method, v) # rest) ret errors =
     (case validate_method v of
        Inl (ValidationError m) \<Rightarrow> run_fields rest ret (errors @ [(name, [m])])
      | Inl e \<Rightarrow> Inl e
      | Inr validated_value \<Rightarrow> run_fields rest (ret @ [(name, validated_value)]) errors)"

text \<open>The request body, after the two \<^verbatim>\<open>CharField\<close>s have accepted their values.\<close>

record request_data =
  start_location :: string
  finish_location :: string

text \<open>
  The network is not a function of the request: the same name may be answered differently
  each time it is asked. The geocoding service is therefore indexed by the number of the
  call within the request: calls 0 and 1 are made while validating the start and the
  finish location, calls 2 and 3 while the route is fetched.

  \<^verbatim>\<open>serializer.is_valid(raise_exception=True)\<close>, giving \<^verbatim>\<open>validated_data\<close>.
\<close>

definition is_valid ::
  "(nat \<Rightarrow> string \<Rightarrow> geo_response) \<Rightarrow> request_data \<Rightarrow> exn + (string \<times> string) list" where
  "is_valid geocoder d =
     run_fields
       [(''start_location'', validate_start_location (geocoder 0), start_location d),
        (''finish_location'', validate_finish_location (geocoder 1), finish_location d)]
       [] []"

section \<open>Route fetching and the planning operation\<close>

text \<open>
  The routing service answers two (longitude, latitude) pairs with an HTTP error or with
  a list of routes, each a distance in meters (a double) and a geometry. The third
  collaborator is the database engine with its \<^verbatim>\<open>AVG\<close>.
\<close>

type_synonym geometry = "(rat \<times> rat) list"

datatype route_response = RouteHTTPError string | RouteData "(rat \<times> geometry) list"

record services =
  geocoder :: "nat \<Rightarrow> string \<Rightarrow> geo_response"
  router :: "rat \<times> rat \<Rightarrow> rat \<times> rat \<Rightarrow> route_response"
  db_avg :: "rat list \<Rightarrow> rat"

text \<open>
  \<^verbatim>\<open>fetch_route_data\<close>. The distance in miles is the float quotient of the distance in
  meters and the double of the literal \<^verbatim>\<open>1609.34\<close>.
\<close>

definition fetch_route_data :: "services \<Rightarrow> string \<Rightarrow> string \<Rightarrow> exn + rat \<times> geometry" where
  "fetch_route_data env start_loc end_loc =
     (case geocode_location (geocoder env 2) start_loc of
        Inl e \<Rightarrow> Inl e
      | Inr start_coords \<Rightarrow>
     (case geocode_location (geocoder env 3) end_loc of
        Inl e \<Rightarrow> Inl e
      | Inr end_coords \<Rightarrow>
     (case router env (snd start_coords, fst start_coords) (snd end_coords, fst end_coords) of
        RouteHTTPError m \<Rightarrow> Inl (HTTPError m)
      | RouteData [] \<Rightarrow> Inl IndexError
      | RouteData ((distance, route_geometry) # _) \<Rightarrow>
          Inr (float_div distance (float_round 1609.34), route_geometry))))"

record plan =
  route :: geometry
  fuel_stops :: "FuelStop list"
  total_cost :: rat

text \<open>\<^verbatim>\<open>validated_data[key]\<close>.\<close>

definition lookup :: "(string \<times> string) list \<Rightarrow> string \<Rightarrow> exn + string" where
  "lookup validated_data k =
     (case map_of validated_data k of None \<Rightarrow> Inl (KeyError k) | Some v \<Rightarrow> Inr v)"

definition create :: "services \<Rightarrow> (string \<times> string) list \<Rightarrow> db \<Rightarrow> (exn + plan) \<times> db" where
  "create env validated_data s =
     (case lookup validated_data ''start_location'' of
        Inl e \<Rightarrow> (Inl e, s)
      | Inr start_loc \<Rightarrow>
     (case lookup validated_data ''finish_location'' of
        Inl e \<Rightarrow> (Inl e, s)
      | Inr end_loc \<Rightarrow>
     (case fetch_route_data env start_loc end_loc of
        Inl e \<Rightarrow> (Inl e, s)
      | Inr (route_distance, route_geometry) \<Rightarrow>
     (case find_optimal_fuel_stops route_distance s of
        (Inl e, s1) \<Rightarrow> (Inl e, s1)
      | (Inr optimal_stops, s1) \<Rightarrow>
     (case calculate_total_cost (db_avg env) route_distance s1 of
        (Inl e, s2) \<Rightarrow> (Inl e, s2)
      | (Inr cost, s2) \<Rightarrow>
          (Inr \<lparr>route = route_geometry, fuel_stops = optimal_stops, total_cost = cost\<rparr>, s2))))))"

section \<open>The view\<close>

definition HTTP_200_OK :: nat where
  "HTTP_200_OK = 200"

definition HTTP_400_BAD_REQUEST :: nat where
  "HTTP_400_BAD_REQUEST = 400"

definition HTTP_500_INTERNAL_SERVER_ERROR :: nat where
  "HTTP_500_INTERNAL_SERVER_ERROR = 500"

datatype body = Result plan | Error string

datatype response = Response body nat

text \<open>
  \<^verbatim>\<open>RouteView.post\<close>. \<^verbatim>\<open>is_valid\<close> stands before the \<^verbatim>\<open>try\<close>: what it raises leaves the
  method. Inside the \<^verbatim>\<open>try\<close>, an \<^verbatim>\<open>HTTPError\<close> and a \<^verbatim>\<open>ValueError\<close> are turned
  into responses; any other exception leaves the method.
\<close>

definition post :: "services \<Rightarrow> request_data \<Rightarrow> db \<Rightarrow> (exn + response) \<times> db" where
  "post env d s =
     (case is_valid (geocoder env) d of
        Inl e \<Rightarrow> (Inl e, s)
      | Inr validated_data \<Rightarrow>
     (case create env validated_data s of
        (Inr result, s') \<Rightarrow> (Inr (Response (Result result) HTTP_200_OK), s')
      | (Inl (HTTPError m), s') \<Rightarrow>
          (Inr (Response (Error (''Failed to fetch route data: '' @ m))
                  HTTP_500_INTERNAL_SERVER_ERROR), s')
      | (Inl (ValueError m), s') \<Rightarrow> (Inr (Response (Error m) HTTP_400_BAD_REQUEST), s')
      | (Inl e, s') \<Rightarrow> (Inl e, s')))"

section \<open>Example data\<close>

text \<open>A table of two rows, the cheaper one inserted last.\<close>

definition db0 :: db where
  "db0 = \<lparr>fuel_prices =
     [\<lparr>city = ''Las Vegas'', state = ''NV'', price_per_gallon = 3\<rparr>,
      \<lparr>city = ''Phoenix'', state = ''AZ'', price_per_gallon = 5 / 2\<rparr>]\<rparr>"



text \<open>A database engine whose \<^verbatim>\<open>AVG\<close> is the mean to 15 significant digits.\<close>

definition avg15 :: "rat list \<Rightarrow> rat" where
  "avg15 xs = round_sig 15 (sum_list xs / of_nat (length xs))"

text \<open>
  The answers of a geocoder that knows five places, has no match for one name and fails
  on any other. Eastport lies on the eastern edge: its longitude is the double of
  \<^verbatim>\<open>-66.93457\<close>.
\<close>

definition geo0 :: "string \<Rightarrow> geo_response" where
  "geo0 name =
     (if name = ''London, UK'' then GeoData [(51.5, - 0.125)]
      else if name = ''Tokyo, Japan'' then GeoData [(35.75, 139.75)]
      else if name = ''Seattle, WA'' then GeoData [(47.625, - 122.25)]
      else if name = ''New York, NY'' then GeoData [(40.75, - 74)]
      else if name = ''Eastport, ME'' then GeoData [(45, - 4710101632971943 / 70368744177664)]
      else if name = ''Nowhere'' then GeoData []
      else GeoHTTPError ''503 Server Error: Service Unavailable'')"

text \<open>
  Five environments over the 15-digit database. In the first every geocoding call is
  answered by \<open>geo0\<close> and the router has one route of 2011675 meters; in the second the
  router answers with an HTTP error; in the third the geocoder fails from its third call
  on; in the fourth the router answers without a route; in the fifth the geocoder has no
  match from its third call on.
\<close>

definition env0 :: services where
  "env0 = \<lparr>geocoder = (\<lambda>n. geo0), router = (\<lambda>a b. RouteData [(2011675, [a, b])]),
            db_avg = avg15\<rparr>"

definition env1 :: services where
  "env1 = \<lparr>geocoder = (\<lambda>n. geo0),
            router = (\<lambda>a b. RouteHTTPError ''502 Server Error: Bad Gateway''), db_avg = avg15\<rparr>"

definition env2 :: services where
  "env2 = \<lparr>geocoder = (\<lambda>n. if n < 2 then geo0
                                else (\<lambda>name. GeoHTTPError ''503 Server Error: Service Unavailable'')),
            router = (\<lambda>a b. RouteData [(2011675, [a, b])]), db_avg = avg15\<rparr>"

definition env3 :: services where
  "env3 = \<lparr>geocoder = (\<lambda>n. geo0), router = (\<lambda>a b. RouteData []), db_avg = avg15\<rparr>"

definition env4 :: services where
  "env4 = \<lparr>geocoder = (\<lambda>n. if n < 2 then geo0 else (\<lambda>name. GeoData [])),
            router = (\<lambda>a b. RouteData [(2011675, [a, b])]), db_avg = avg15\<rparr>"

definition req0 :: request_data where
  "req0 = \<lparr>start_location = ''Seattle, WA'', finish_location = ''New York, NY''\<rparr>"

section \<open>The stop planner\<close>

lemma upt_Suc_shift: "[Suc 0..<Suc (Suc n)] = Suc 0 # map Suc [Suc 0..<Suc n]"
  by (simp add: upt_conv_Cons map_Suc_upt del: upt_Suc)

text \<open>The loop appends one stop per iteration, all built from the same first row.\<close>

lemma stops_loop_eq:
  "first q = Some c \<Longrightarrow>
   stops_loop n q acc cur =
     Inr (acc @ map (\<lambda>i. \<lparr>city = city c, state = state c, price_per_gallon = price_per_gallon c,
                          distance_from_start = cur + 500 * int i\<rparr>) [Suc 0..<Suc n])"
proof (induction n arbitrary: acc cur)
  case 0
  then show ?case by simp
next
  case (Suc n)
  show ?case
    using Suc.prems
    by (simp add: Suc.IH [OF Suc.prems] upt_Suc_shift VEHICLE_RANGE_MILES_def algebra_simps comp_def
          del: upt_Suc)
qed

text \<open>On a non-empty table the first row in price order is a row of least price.\<close>

lemma first_order_by_price:
  assumes "fuel_prices s \<noteq> []"
  shows "\<exists>c. first (order_by_price s) = Some c \<and> c \<in> set (fuel_prices s) \<and>
    (\<forall>r \<in> set (fuel_prices s). price_per_gallon c \<le> price_per_gallon r)"
proof -
  let ?q = "sort_key price_per_gallon (fuel_prices s)"
  from assms have "?q \<noteq> []" by (metis length_sort length_0_conv)
  then obtain c cs where q: "?q = c # cs" by (cases ?q) auto
  have "sorted (map price_per_gallon ?q)" by (rule sorted_sort_key)
  with q have le: "\<forall>r \<in> set ?q. price_per_gallon c \<le> price_per_gallon r" by auto
  have eq: "set ?q = set (fuel_prices s)" by simp
  have mem: "c \<in> set ?q" using q by simp
  have "first (order_by_price s) = Some c" using q by (simp add: first_def order_by_price_def)
  with le mem show ?thesis unfolding eq by blast
qed

lemma find_optimal_fuel_stops_eq:
  assumes "first (order_by_price s) = Some c"
  shows "fst (find_optimal_fuel_stops d s) =
     Inr (map (\<lambda>i. \<lparr>city = city c, state = state c, price_per_gallon = price_per_gallon c,
                     distance_from_start = 500 * int i\<rparr>) [Suc 0..<Suc (nat \<lfloor>d / 500\<rfloor>)])"
proof -
  from assms have "order_by_price s \<noteq> []" by (auto simp: first_def)
  then show ?thesis
    by (simp add: find_optimal_fuel_stops_def exists_def Let_def stops_loop_eq [OF assms]
          VEHICLE_RANGE_MILES_def del: upt_Suc)
qed

text \<open>
  Claim C1. For a non-empty table and a route distance \<open>d\<close> (a distance, so \<open>0 \<le> d\<close>),
  \<^verbatim>\<open>find_optimal_fuel_stops\<close> returns, without error, exactly \<open>\<lfloor>d / 500\<rfloor>\<close> stops; the
  \<open>i\<close>-th stop (counting from 1) is at distance \<open>i * 500\<close> and carries the city, state
  and price of one row \<open>c\<close> of the table, the first in ascending price order, whose price
  no row undercuts. A distance below 500 gives the empty list.
\<close>

theorem find_optimal_fuel_stops_cheapest:
  assumes "fuel_prices s \<noteq> []" and "0 \<le> d"
  shows "\<exists>c stops.
     first (order_by_price s) = Some c \<and> c \<in> set (fuel_prices s) \<and>
     (\<forall>r \<in> set (fuel_prices s). price_per_gallon c \<le> price_per_gallon r) \<and>
     fst (find_optimal_fuel_stops d s) = Inr stops \<and>
     int (length stops) = \<lfloor>d / 500\<rfloor> \<and>
     (\<forall>i. 1 \<le> i \<and> i \<le> length stops \<longrightarrow>
        stops ! (i - 1) = \<lparr>city = city c, state = state c, price_per_gallon = price_per_gallon c,
                            distance_from_start = int i * 500\<rparr>) \<and>
     (d < 500 \<longrightarrow> stops = [])"
proof -
  from first_order_by_price [OF assms(1)] obtain c where
    c: "first (order_by_price s) = Some c" "c \<in> set (fuel_prices s)"
       "\<forall>r \<in> set (fuel_prices s). price_per_gallon c \<le> price_per_gallon r"
    by blast
  let ?mk = "\<lambda>i. \<lparr>city = city c, state = state c, price_per_gallon = price_per_gallon c,
                     distance_from_start = 500 * int i\<rparr>"
  let ?stops = "map ?mk [Suc 0..<Suc (nat \<lfloor>d / 500\<rfloor>)]"
  have res: "fst (find_optimal_fuel_stops d s) = Inr ?stops"
    by (rule find_optimal_fuel_stops_eq [OF c(1)])
  have fl: "0 \<le> \<lfloor>d / 500\<rfloor>" using assms(2) by simp
  have len: "int (length ?stops) = \<lfloor>d / 500\<rfloor>" using fl by (simp del: upt_Suc)
  have nth: "\<forall>i. 1 \<le> i \<and> i \<le> length ?stops \<longrightarrow>
        ?stops ! (i - 1) = \<lparr>city = city c, state = state c, price_per_gallon = price_per_gallon c,
                            distance_from_start = int i * 500\<rparr>"
    by (auto simp: nth_map_upt simp del: upt_Suc)
  have short: "d < 500 \<longrightarrow> ?stops = []"
  proof
    assume "d < 500"
    then have "\<lfloor>d / 500\<rfloor> < 1" by (simp add: floor_less_iff)
    then show "?stops = []" by simp
  qed
  from c res len nth short show ?thesis by blast
qed

text \<open>At 1250 miles on the example table: two stops, both the Phoenix row, at 500 and 1000.\<close>

theorem find_optimal_fuel_stops_cheapest_witness:
  "fuel_prices db0 \<noteq> [] \<and> (0::rat) \<le> 1250 \<and>
   fst (find_optimal_fuel_stops 1250 db0) =
     Inr [\<lparr>city = ''Phoenix'', state = ''AZ'', price_per_gallon = 5 / 2, distance_from_start = 500\<rparr>,
          \<lparr>city = ''Phoenix'', state = ''AZ'', price_per_gallon = 5 / 2, distance_from_start = 1000\<rparr>]"
proof -
  have ne: "fuel_prices db0 \<noteq> []" by (simp add: db0_def)
  have pos: "(0::rat) \<le> 1250" by simp
  have f: "first (order_by_price db0) =
      Some \<lparr>city = ''Phoenix'', state = ''AZ'', price_per_gallon = 5 / 2\<rparr>"
    by (simp add: order_by_price_def db0_def first_def)
  from find_optimal_fuel_stops_cheapest [OF ne pos] obtain c stops where
    h: "first (order_by_price db0) = Some c"
       "fst (find_optimal_fuel_stops 1250 db0) = Inr stops"
       "int (length stops) = \<lfloor>(1250::rat) / 500\<rfloor>"
       "\<forall>i. 1 \<le> i \<and> i \<le> length stops \<longrightarrow>
        stops ! (i - 1) = \<lparr>city = city c, state = state c, price_per_gallon = price_per_gallon c,
                            distance_from_start = int i * 500\<rparr>"
    by blast
  from h(1) f have c: "c = \<lparr>city = ''Phoenix'', state = ''AZ'', price_per_gallon = 5 / 2\<rparr>" by simp
  have "\<lfloor>(1250::rat) / 500\<rfloor> = 2" by (rule floor_unique) simp_all
  with h(3) have len: "length stops = 2" by simp
  from h(4) len have "stops ! 0 = \<lparr>city = city c, state = state c, price_per_gallon = price_per_gallon c,
                            distance_from_start = 500\<rparr>"
    and "stops ! 1 = \<lparr>city = city c, state = state c, price_per_gallon = price_per_gallon c,
                            distance_from_start = 1000\<rparr>"
    by (force dest: spec [of _ 1], force dest: spec [of _ 2])
  with len c have "stops =
     [\<lparr>city = ''Phoenix'', state = ''AZ'', price_per_gallon = 5 / 2, distance_from_start = 500\<rparr>,
      \<lparr>city = ''Phoenix'', state = ''AZ'', price_per_gallon = 5 / 2, distance_from_start = 1000\<rparr>]"
    by (simp add: list_eq_iff_nth_eq less_Suc_eq numeral_2_eq_2)
  with ne pos h(2) show ?thesis by simp
qed

text \<open>
  Claim C8. On a non-empty table the stop list is returned without error and satisfies:
  each stop lies exactly 500 beyond the one before it, no stop lies beyond the route
  distance, and all stops carry the same city, state and price.
\<close>

theorem stops_invariant:
  assumes "fuel_prices s \<noteq> []"
  shows "\<exists>stops. fst (find_optimal_fuel_stops d s) = Inr stops \<and>
     (\<forall>i. Suc i < length stops \<longrightarrow>
        distance_from_start (stops ! Suc i) = distance_from_start (stops ! i) + 500) \<and>
     (\<forall>st \<in> set stops. of_int (distance_from_start st) \<le> d) \<and>
     (\<forall>a \<in> set stops. \<forall>b \<in> set stops.
        city a = city b \<and> state a = state b \<and> price_per_gallon a = price_per_gallon b)"
proof -
  from first_order_by_price [OF assms] obtain c where
    c: "first (order_by_price s) = Some c" by blast
  let ?mk = "\<lambda>i. \<lparr>city = city c, state = state c, price_per_gallon = price_per_gallon c,
                     distance_from_start = 500 * int i\<rparr>"
  let ?n = "nat \<lfloor>d / 500\<rfloor>"
  let ?stops = "map ?mk [Suc 0..<Suc ?n]"
  have res: "fst (find_optimal_fuel_stops d s) = Inr ?stops"
    by (rule find_optimal_fuel_stops_eq [OF c])
  have step: "\<forall>i. Suc i < length ?stops \<longrightarrow>
        distance_from_start (?stops ! Suc i) = distance_from_start (?stops ! i) + 500"
    by (simp add: nth_map_upt del: upt_Suc)
  have bound: "\<forall>st \<in> set ?stops. of_int (distance_from_start st) \<le> d"
  proof
    fix st assume "st \<in> set ?stops"
    then obtain i where i: "Suc 0 \<le> i" "i \<le> ?n" and st: "st = ?mk i"
      by (auto simp del: upt_Suc)
    from i have "int i \<le> \<lfloor>d / 500\<rfloor>" by linarith
    then have "(of_int (int i) :: rat) \<le> d / 500" by (simp add: le_floor_iff)
    then have "500 * (of_int (int i) :: rat) \<le> d" by simp
    with st show "of_int (distance_from_start st) \<le> d" by simp
  qed
  have same: "\<forall>a \<in> set ?stops. \<forall>b \<in> set ?stops.
        city a = city b \<and> state a = state b \<and> price_per_gallon a = price_per_gallon b"
    by (auto simp del: upt_Suc)
  from res step bound same show ?thesis by blast
qed

text \<open>At 1250 miles on the example table the list has two stops.\<close>

theorem stops_invariant_witness:
  "fuel_prices db0 \<noteq> [] \<and>
   (\<exists>stops. fst (find_optimal_fuel_stops 1250 db0) = Inr stops \<and> length stops = 2 \<and>
     (\<forall>i. Suc i < length stops \<longrightarrow>
        distance_from_start (stops ! Suc i) = distance_from_start (stops ! i) + 500) \<and>
     (\<forall>st \<in> set stops. of_int (distance_from_start st) \<le> (1250::rat)) \<and>
     (\<forall>a \<in> set stops. \<forall>b \<in> set stops.
        city a = city b \<and> state a = state b \<and> price_per_gallon a = price_per_gallon b))"
proof -
  have ne: "fuel_prices db0 \<noteq> []" by (simp add: db0_def)
  have f: "first (order_by_price db0) =
      Some \<lparr>city = ''Phoenix'', state = ''AZ'', price_per_gallon = 5 / 2\<rparr>"
    by (simp add: order_by_price_def db0_def first_def)
  have fl: "\<lfloor>(1250::rat) / 500\<rfloor> = 2" by (rule floor_unique) simp_all
  from stops_invariant [OF ne, of 1250] obtain stops where
    h: "fst (find_optimal_fuel_stops 1250 db0) = Inr stops"
       "\<forall>i. Suc i < length stops \<longrightarrow>
          distance_from_start (stops ! Suc i) = distance_from_start (stops ! i) + 500"
       "\<forall>st \<in> set stops. of_int (distance_from_start st) \<le> (1250::rat)"
       "\<forall>a \<in> set stops. \<forall>b \<in> set stops.
          city a = city b \<and> state a = state b \<and> price_per_gallon a = price_per_gallon b"
    by blast
  have "length stops = nat \<lfloor>(1250::rat) / 500\<rfloor>"
    using h(1) unfolding find_optimal_fuel_stops_eq [OF f] by (auto simp del: upt_Suc)
  then have "length stops = 2" unfolding fl by simp
  with ne h show ?thesis by blast
qed

text \<open>
  Claim C9. On a fixed non-empty table the number of stops is monotone in the route
  distance: a shorter route never gets more stops.
\<close>

theorem stops_count_monotone:
  assumes "fuel_prices s \<noteq> []" and "d1 \<le> d2"
  shows "\<exists>stops1 stops2.
     fst (find_optimal_fuel_stops d1 s) = Inr stops1 \<and>
     fst (find_optimal_fuel_stops d2 s) = Inr stops2 \<and>
     length stops1 \<le> length stops2"
proof -
  from first_order_by_price [OF assms(1)] obtain c where
    c: "first (order_by_price s) = Some c" by blast
  from assms(2) have "\<lfloor>d1 / 500\<rfloor> \<le> \<lfloor>d2 / 500\<rfloor>"
    by (intro floor_mono divide_right_mono) simp_all
  then have "nat \<lfloor>d1 / 500\<rfloor> \<le> nat \<lfloor>d2 / 500\<rfloor>" by simp
  then show ?thesis
    by (simp add: find_optimal_fuel_stops_eq [OF c] del: upt_Suc)
qed

theorem stops_count_monotone_witness:
  "fuel_prices db0 \<noteq> [] \<and> (499::rat) \<le> 1250 \<and>
   (\<exists>stops1 stops2.
     fst (find_optimal_fuel_stops 499 db0) = Inr stops1 \<and>
     fst (find_optimal_fuel_stops 1250 db0) = Inr stops2 \<and>
     length stops1 \<le> length stops2)"
proof -
  have ne: "fuel_prices db0 \<noteq> []" by (simp add: db0_def)
  have le: "(499::rat) \<le> 1250" by simp
  from ne le stops_count_monotone [OF ne le] show ?thesis by simp
qed

section \<open>The empty table\<close>

text \<open>
  Claim C3. On the empty table both \<^verbatim>\<open>find_optimal_fuel_stops\<close> and
  \<^verbatim>\<open>calculate_total_cost\<close> raise the \<^verbatim>\<open>ValueError\<close> with the message
  "No fuel prices available to calculate the total cost.", whatever the route distance
  (zero and distances below the vehicle range included) and whatever the database engine:
  neither returns a list or a cost.
\<close>

theorem empty_catalog_fails:
  "fst (find_optimal_fuel_stops d \<lparr>fuel_prices = []\<rparr>) =
     Inl (ValueError ''No fuel prices available to calculate the total cost.'') \<and>
   fst (calculate_total_cost avg d \<lparr>fuel_prices = []\<rparr>) =
     Inl (ValueError ''No fuel prices available to calculate the total cost.'')"
  by (simp add: find_optimal_fuel_stops_def order_by_price_def exists_def
        calculate_total_cost_def aggregate_avg_def)

section \<open>The cost of a route of length zero\<close>

lemma ctx_round_0: "ctx_round 0 = 0"
  by (simp add: ctx_round_def round_sig_def)

text \<open>
  Claim C10. On a non-empty table \<^verbatim>\<open>calculate_total_cost\<close> of the distance 0 returns the
  cost 0, not an error, whatever average the database gives.
\<close>

theorem zero_distance_zero_cost:
  assumes "fuel_prices s \<noteq> []"
  shows "fst (calculate_total_cost avg 0 s) = Inr 0"
  using assms
  by (simp add: calculate_total_cost_def aggregate_avg_def dec_div_def dec_mul_def
        Decimal_def ctx_round_0)

theorem zero_distance_zero_cost_witness:
  "fuel_prices db0 \<noteq> [] \<and> fst (calculate_total_cost avg15 0 db0) = Inr 0"
proof -
  have ne: "fuel_prices db0 \<noteq> []" by (simp add: db0_def)
  from ne zero_distance_zero_cost [OF ne] show ?thesis by simp
qed

section \<open>The table is only read\<close>

lemma find_optimal_fuel_stops_db: "snd (find_optimal_fuel_stops d s) = s"
  by (simp add: find_optimal_fuel_stops_def Let_def)

lemma calculate_total_cost_db: "snd (calculate_total_cost avg d s) = s"
  by (simp add: calculate_total_cost_def Let_def split: option.split)

lemma create_db: "snd (create env vd s) = s"
  by (simp add: create_def case_prod_beta find_optimal_fuel_stops_db calculate_total_cost_db
        split: sum.split)

text \<open>
  Claim C7. The planning operation leaves the stored fuel price table as it found it: the
  table after \<^verbatim>\<open>post\<close> is the table before it, whether the request is answered with a plan,
  with an error response or with an exception; the same holds for \<^verbatim>\<open>create\<close>,
  \<^verbatim>\<open>find_optimal_fuel_stops\<close> and \<^verbatim>\<open>calculate_total_cost\<close>.
\<close>

theorem post_preserves_db:
  "snd (post env d s) = s \<and> snd (create env vd s) = s \<and>
   snd (find_optimal_fuel_stops r s) = s \<and> snd (calculate_total_cost avg r s) = s"
proof -
  have "snd (post env d s) = s"
    by (simp add: post_def case_prod_beta create_db split: sum.split exn.split)
  then show ?thesis
    by (simp add: create_db find_optimal_fuel_stops_db calculate_total_cost_db)
qed

section \<open>Decimal rounding and the total cost\<close>













lemma calculate_total_cost_eq:
  assumes "fuel_prices s \<noteq> []"
  shows "fst (calculate_total_cost avg d s) =
     Inr (ctx_round (ctx_round (d / 10) * avg (map price_per_gallon (fuel_prices s))))"
  using assms
  by (simp add: calculate_total_cost_def aggregate_avg_def dec_div_def dec_mul_def Decimal_def
        VEHICLE_MPG_def)







section \<open>Location validation and the collected errors\<close>

text \<open>The doubles of the four literals of \<^verbatim>\<open>is_within_usa\<close> and of \<^verbatim>\<open>1609.34\<close>.\<close>

lemma float_round_24_396308: "float_round 24.396308 = 6866950226125991 / 281474976710656"
  by code_simp

lemma float_round_49_384358: "float_round 49.384358 = 6950230508960349 / 140737488355328"
  by code_simp

lemma float_round_125: "float_round (- 125.0) = - 125"
  by code_simp

lemma float_round_66_93457: "float_round (- 66.93457) = - 4710101632971943 / 70368744177664"
  by code_simp

lemma float_round_1609_34: "float_round 1609.34 = 7077952172180111 / 4398046511104"
  by code_simp

lemma is_within_usa_iff:
  "is_within_usa lat lon \<longleftrightarrow>
     6866950226125991 / 281474976710656 \<le> lat \<and> lat \<le> 6950230508960349 / 140737488355328 \<and>
     - 125 \<le> lon \<and> lon \<le> - 4710101632971943 / 70368744177664"
  unfolding is_within_usa_def float_round_24_396308 float_round_49_384358 float_round_125
    float_round_66_93457
  by blast

text \<open>The example geocoder on its names.\<close>

lemma geocode_London: "geocode_location geo0 ''London, UK'' = Inr (51.5, - 0.125)"
  by (simp add: geocode_location_def geo0_def)

lemma geocode_Tokyo: "geocode_location geo0 ''Tokyo, Japan'' = Inr (35.75, 139.75)"
  by (simp add: geocode_location_def geo0_def)

lemma geocode_Seattle: "geocode_location geo0 ''Seattle, WA'' = Inr (47.625, - 122.25)"
  by (simp add: geocode_location_def geo0_def)

lemma geocode_New_York: "geocode_location geo0 ''New York, NY'' = Inr (40.75, - 74)"
  by (simp add: geocode_location_def geo0_def)


lemma geocode_Nowhere:
  "geocode_location geo0 ''Nowhere'' =
     Inl (ValueError ''Location 'Nowhere' could not be geocoded.'')"
  by (simp add: geocode_location_def geo0_def)




section \<open>What validation collects\<close>

text \<open>The field loop on the two declared fields, unrolled.\<close>

lemma is_valid_cases:
  "is_valid g d =
     (case validate_start_location (g 0) (start_location d) of
        Inl (ValidationError m1) \<Rightarrow>
          (case validate_finish_location (g 1) (finish_location d) of
             Inl (ValidationError m2) \<Rightarrow>
               Inl (FieldErrors [(''start_location'', [m1]), (''finish_location'', [m2])])
           | Inl e \<Rightarrow> Inl e
           | Inr w \<Rightarrow> Inl (FieldErrors [(''start_location'', [m1])]))
      | Inl e \<Rightarrow> Inl e
      | Inr w1 \<Rightarrow>
          (case validate_finish_location (g 1) (finish_location d) of
             Inl (ValidationError m2) \<Rightarrow> Inl (FieldErrors [(''finish_location'', [m2])])
           | Inl e \<Rightarrow> Inl e
           | Inr w2 \<Rightarrow> Inr [(''start_location'', w1), (''finish_location'', w2)]))"
  by (simp add: is_valid_def split: sum.split exn.split)

text \<open>\<^verbatim>\<open>geocode_location\<close> raises a \<^verbatim>\<open>ValueError\<close> or an \<^verbatim>\<open>HTTPError\<close>, nothing else.\<close>

lemma geocode_location_error:
  "geocode_location a v = Inl e \<Longrightarrow> (\<exists>m. e = ValueError m) \<or> (\<exists>m. e = HTTPError m)"
  by (auto simp: geocode_location_def split: geo_response.splits list.splits prod.splits)

lemma validate_start_location_geocode_error:
  "geocode_location a v = Inl e \<Longrightarrow> validate_start_location a v = Inl e"
  by (simp add: validate_start_location_def)

lemma validate_finish_location_geocode_error:
  "geocode_location a v = Inl e \<Longrightarrow> validate_finish_location a v = Inl e"
  by (simp add: validate_finish_location_def)

lemma validate_start_location_geocoded:
  "geocode_location a v = Inr (lat, lon) \<Longrightarrow>
   validate_start_location a v =
     (if is_within_usa lat lon then Inr v
      else Inl (ValidationError
             (''Start location '' @ CHR 0x27 # v @ CHR 0x27 # '' is not within the USA.'')))"
  by (simp add: validate_start_location_def)

lemma validate_finish_location_geocoded:
  "geocode_location a v = Inr (lat, lon) \<Longrightarrow>
   validate_finish_location a v =
     (if is_within_usa lat lon then Inr v
      else Inl (ValidationError
             (''Finish location '' @ CHR 0x27 # v @ CHR 0x27 # '' is not within the USA.'')))"
  by (simp add: validate_finish_location_def)

text \<open>
  Claim C4, amended. A validation failure is collected per field only when it is an
  out-of-bounds failure. If both location names geocode, the error raised holds one
  entry, keyed \<^verbatim>\<open>start_location\<close> or \<^verbatim>\<open>finish_location\<close>, for each field whose coordinates
  lie outside the box, both entries when both do, and with no such field the validated
  data is returned. A geocode failure while validating either field (no match, or an
  error of the provider) is not collected: validation ends at once with the exception
  that \<^verbatim>\<open>geocode_location\<close> raised, which is no \<^verbatim>\<open>ValidationError\<close>, and an out-of-bounds
  failure already collected for the start field is not reported.
\<close>

theorem out_of_bounds_collected:
  "(geocode_location (g 0) (start_location d) = Inr (lat1, lon1) \<and>
    geocode_location (g 1) (finish_location d) = Inr (lat2, lon2) \<longrightarrow>
      is_valid g d =
        (if is_within_usa lat1 lon1 \<and> is_within_usa lat2 lon2
         then Inr [(''start_location'', start_location d), (''finish_location'', finish_location d)]
         else Inl (FieldErrors
           ((if is_within_usa lat1 lon1 then []
             else [(''start_location'',
                    [''Start location '' @ CHR 0x27 # start_location d @ CHR 0x27 #
                       '' is not within the USA.''])]) @
            (if is_within_usa lat2 lon2 then []
             else [(''finish_location'',
                    [''Finish location '' @ CHR 0x27 # finish_location d @ CHR 0x27 #
                       '' is not within the USA.''])]))))) \<and>
   (geocode_location (g 0) (start_location d) = Inl e \<longrightarrow>
      is_valid g d = Inl e \<and> (\<forall>m. e \<noteq> ValidationError m) \<and> (\<forall>errs. e \<noteq> FieldErrors errs)) \<and>
   (geocode_location (g 0) (start_location d) = Inr (lat1, lon1) \<and>
    geocode_location (g 1) (finish_location d) = Inl e \<longrightarrow>
      is_valid g d = Inl e \<and> (\<forall>m. e \<noteq> ValidationError m) \<and> (\<forall>errs. e \<noteq> FieldErrors errs))"
proof -
  have p1: "geocode_location (g 0) (start_location d) = Inr (lat1, lon1) \<and>
    geocode_location (g 1) (finish_location d) = Inr (lat2, lon2) \<longrightarrow>
      is_valid g d =
        (if is_within_usa lat1 lon1 \<and> is_within_usa lat2 lon2
         then Inr [(''start_location'', start_location d), (''finish_location'', finish_location d)]
         else Inl (FieldErrors
           ((if is_within_usa lat1 lon1 then []
             else [(''start_location'',
                    [''Start location '' @ CHR 0x27 # start_location d @ CHR 0x27 #
                       '' is not within the USA.''])]) @
            (if is_within_usa lat2 lon2 then []
             else [(''finish_location'',
                    [''Finish location '' @ CHR 0x27 # finish_location d @ CHR 0x27 #
                       '' is not within the USA.''])]))))"
    by (simp add: is_valid_cases validate_start_location_geocoded
          validate_finish_location_geocoded)
  have p2: "geocode_location (g 0) (start_location d) = Inl e \<longrightarrow>
      is_valid g d = Inl e \<and> (\<forall>m. e \<noteq> ValidationError m) \<and> (\<forall>errs. e \<noteq> FieldErrors errs)"
  proof
    assume h: "geocode_location (g 0) (start_location d) = Inl e"
    from geocode_location_error [OF h]
    have k: "(\<exists>m. e = ValueError m) \<or> (\<exists>m. e = HTTPError m)" .
    then have "is_valid g d = Inl e"
      using validate_start_location_geocode_error [OF h]
      by (auto simp: is_valid_cases)
    with k show "is_valid g d = Inl e \<and> (\<forall>m. e \<noteq> ValidationError m) \<and>
        (\<forall>errs. e \<noteq> FieldErrors errs)"
      by auto
  qed
  have p3: "geocode_location (g 0) (start_location d) = Inr (lat1, lon1) \<and>
    geocode_location (g 1) (finish_location d) = Inl e \<longrightarrow>
      is_valid g d = Inl e \<and> (\<forall>m. e \<noteq> ValidationError m) \<and> (\<forall>errs. e \<noteq> FieldErrors errs)"
  proof
    assume h: "geocode_location (g 0) (start_location d) = Inr (lat1, lon1) \<and>
      geocode_location (g 1) (finish_location d) = Inl e"
    then have h1: "geocode_location (g 0) (start_location d) = Inr (lat1, lon1)"
      and h2: "geocode_location (g 1) (finish_location d) = Inl e" by simp_all
    from geocode_location_error [OF h2]
    have k: "(\<exists>m. e = ValueError m) \<or> (\<exists>m. e = HTTPError m)" .
    then have "is_valid g d = Inl e"
      using validate_finish_location_geocode_error [OF h2]
        validate_start_location_geocoded [OF h1]
      by (auto simp: is_valid_cases)
    with k show "is_valid g d = Inl e \<and> (\<forall>m. e \<noteq> ValidationError m) \<and>
        (\<forall>errs. e \<noteq> FieldErrors errs)"
      by auto
  qed
  from p1 p2 p3 show ?thesis by (intro conjI)
qed

text \<open>
  London to Tokyo: both fields are reported in one error. From a name without match:
  the bare \<^verbatim>\<open>ValueError\<close>. From London to a name without match: the same, and London's
  out-of-bounds failure is not reported.
\<close>

theorem out_of_bounds_collected_witness:
  "geocode_location geo0 ''London, UK'' = Inr (51.5, - 0.125) \<and>
   geocode_location geo0 ''Tokyo, Japan'' = Inr (35.75, 139.75) \<and>
   geocode_location geo0 ''Nowhere'' =
     Inl (ValueError ''Location 'Nowhere' could not be geocoded.'') \<and>
   is_valid (\<lambda>n. geo0) \<lparr>start_location = ''London, UK'', finish_location = ''Tokyo, Japan''\<rparr> =
     Inl (FieldErrors
       [(''start_location'', [''Start location 'London, UK' is not within the USA.'']),
        (''finish_location'', [''Finish location 'Tokyo, Japan' is not within the USA.''])]) \<and>
   is_valid (\<lambda>n. geo0) \<lparr>start_location = ''Nowhere'', finish_location = ''Tokyo, Japan''\<rparr> =
     Inl (ValueError ''Location 'Nowhere' could not be geocoded.'') \<and>
   is_valid (\<lambda>n. geo0) \<lparr>start_location = ''London, UK'', finish_location = ''Nowhere''\<rparr> =
     Inl (ValueError ''Location 'Nowhere' could not be geocoded.'')"
proof -
  have out1: "\<not> is_within_usa 51.5 (- 0.125)" by (simp add: is_within_usa_iff)
  have out2: "\<not> is_within_usa 35.75 139.75" by (simp add: is_within_usa_iff)
  have a: "is_valid (\<lambda>n. geo0) \<lparr>start_location = ''London, UK'', finish_location = ''Tokyo, Japan''\<rparr> =
     Inl (FieldErrors
       [(''start_location'', [''Start location 'London, UK' is not within the USA.'']),
        (''finish_location'', [''Finish location 'Tokyo, Japan' is not within the USA.''])])"
    using out_of_bounds_collected
      [of "\<lambda>n. geo0" "\<lparr>start_location = ''London, UK'', finish_location = ''Tokyo, Japan''\<rparr>"
          "51.5" "- 0.125" "35.75" "139.75"]
      geocode_London geocode_Tokyo out1 out2
    by simp
  have b: "is_valid (\<lambda>n. geo0) \<lparr>start_location = ''Nowhere'', finish_location = ''Tokyo, Japan''\<rparr> =
     Inl (ValueError ''Location 'Nowhere' could not be geocoded.'')"
    using out_of_bounds_collected
      [of "\<lambda>n. geo0" "\<lparr>start_location = ''Nowhere'', finish_location = ''Tokyo, Japan''\<rparr>"
          _ _ _ _ "ValueError ''Location 'Nowhere' could not be geocoded.''"]
      geocode_Nowhere
    by simp
  have c: "is_valid (\<lambda>n. geo0) \<lparr>start_location = ''London, UK'', finish_location = ''Nowhere''\<rparr> =
     Inl (ValueError ''Location 'Nowhere' could not be geocoded.'')"
    using out_of_bounds_collected
      [of "\<lambda>n. geo0" "\<lparr>start_location = ''London, UK'', finish_location = ''Nowhere''\<rparr>"
          "51.5" "- 0.125" _ _ "ValueError ''Location 'Nowhere' could not be geocoded.''"]
      geocode_London geocode_Nowhere
    by simp
  from geocode_London geocode_Tokyo geocode_Nowhere a b c show ?thesis by (intro conjI)
qed

text \<open>
  Claim C4 as stated fails for a geocode failure. With a start name the geocoder has no
  match for and London as finish, both fields are invalid, yet validation ends with the
  bare \<^verbatim>\<open>ValueError\<close> of the start field: nothing is keyed by field and the finish
  field's out-of-bounds failure is not reported. The exception leaves \<^verbatim>\<open>post\<close> as it is.
\<close>

theorem geocode_failure_not_collected:
  "validate_start_location geo0 ''Nowhere'' =
     Inl (ValueError ''Location 'Nowhere' could not be geocoded.'') \<and>
   validate_finish_location geo0 ''London, UK'' =
     Inl (ValidationError ''Finish location 'London, UK' is not within the USA.'') \<and>
   is_valid (\<lambda>n. geo0) \<lparr>start_location = ''Nowhere'', finish_location = ''London, UK''\<rparr> =
     Inl (ValueError ''Location 'Nowhere' could not be geocoded.'') \<and>
   fst (post env0 \<lparr>start_location = ''Nowhere'', finish_location = ''London, UK''\<rparr> db0) =
     Inl (ValueError ''Location 'Nowhere' could not be geocoded.'')"
proof -
  have out1: "\<not> is_within_usa 51.5 (- 0.125)" by (simp add: is_within_usa_iff)
  have a: "validate_start_location geo0 ''Nowhere'' =
     Inl (ValueError ''Location 'Nowhere' could not be geocoded.'')"
    by (simp add: validate_start_location_def geocode_Nowhere)
  have b: "validate_finish_location geo0 ''London, UK'' =
     Inl (ValidationError ''Finish location 'London, UK' is not within the USA.'')"
    using out1 by (simp add: validate_finish_location_def geocode_London)
  have c: "is_valid (\<lambda>n. geo0) \<lparr>start_location = ''Nowhere'', finish_location = ''London, UK''\<rparr> =
     Inl (ValueError ''Location 'Nowhere' could not be geocoded.'')"
    by (simp add: is_valid_cases a b)
  have d: "fst (post env0 \<lparr>start_location = ''Nowhere'', finish_location = ''London, UK''\<rparr> db0) =
     Inl (ValueError ''Location 'Nowhere' could not be geocoded.'')"
    by (simp add: post_def env0_def c)
  from a b c d show ?thesis by (intro conjI)
qed

section \<open>Errors of the planning steps\<close>

lemma validate_start_location_Inr: "validate_start_location a v = Inr w \<Longrightarrow> w = v"
  by (auto simp: validate_start_location_def split: sum.splits prod.splits if_splits)

lemma validate_finish_location_Inr: "validate_finish_location a v = Inr w \<Longrightarrow> w = v"
  by (auto simp: validate_finish_location_def split: sum.splits prod.splits if_splits)

lemma is_valid_Inr:
  assumes "is_valid g d = Inr vd"
  shows "vd = [(''start_location'', start_location d), (''finish_location'', finish_location d)]"
proof -
  from assms obtain w1 w2 where
    w: "validate_start_location (g 0) (start_location d) = Inr w1"
       "validate_finish_location (g 1) (finish_location d) = Inr w2"
       "vd = [(''start_location'', w1), (''finish_location'', w2)]"
    unfolding is_valid_cases by (auto split: sum.splits exn.splits)
  from validate_start_location_Inr [OF w(1)] validate_finish_location_Inr [OF w(2)] w(3)
  show ?thesis by simp
qed

lemma create_validated:
  "create env [(''start_location'', a), (''finish_location'', b)] s =
     (case fetch_route_data env a b of
        Inl e \<Rightarrow> (Inl e, s)
      | Inr (route_distance, route_geometry) \<Rightarrow>
          (case fst (find_optimal_fuel_stops route_distance s) of
             Inl e \<Rightarrow> (Inl e, s)
           | Inr optimal_stops \<Rightarrow>
               (case fst (calculate_total_cost (db_avg env) route_distance s) of
                  Inl e \<Rightarrow> (Inl e, s)
                | Inr cost \<Rightarrow>
                    (Inr \<lparr>route = route_geometry, fuel_stops = optimal_stops,
                          total_cost = cost\<rparr>, s))))"
  by (simp add: create_def lookup_def case_prod_beta find_optimal_fuel_stops_db
        calculate_total_cost_db split: sum.split)

lemma find_optimal_fuel_stops_no_prices:
  "fuel_prices s = [] \<Longrightarrow>
   fst (find_optimal_fuel_stops d s) =
     Inl (ValueError ''No fuel prices available to calculate the total cost.'')"
  by (simp add: find_optimal_fuel_stops_def order_by_price_def exists_def)

text \<open>
  Claim C6, amended. After a successful validation, every downstream failure that raises
  an \<^verbatim>\<open>HTTPError\<close> or a \<^verbatim>\<open>ValueError\<close> is answered with exactly one top-level error: an
  \<^verbatim>\<open>HTTPError\<close> with "Failed to fetch route data: ..." and status 500, a \<^verbatim>\<open>ValueError\<close>
  with its message and status 400. Every failure of the route fetching aborts the
  request with its exception (an \<^verbatim>\<open>HTTPError\<close> of the routing provider or of the
  geocoding provider asked again, the \<^verbatim>\<open>ValueError\<close> of a geocoding lookup without match),
  and an empty fuel price table, once the route is fetched, aborts it with the
  \<^verbatim>\<open>ValueError\<close> "No fuel prices available to calculate the total cost.". A response
  carries a plan only with status 200 and with the route, the stops and the cost that the
  three steps returned, never a part of them. An exception of any other kind, such as
  the \<^verbatim>\<open>IndexError\<close> of a routing answer without routes, is not answered: it leaves
  \<^verbatim>\<open>post\<close>.
\<close>

theorem downstream_errors:
  assumes "is_valid (geocoder env) d = Inr vd"
  shows "(\<forall>m. fst (create env vd s) = Inl (HTTPError m) \<longrightarrow>
            fst (post env d s) =
              Inr (Response (Error (''Failed to fetch route data: '' @ m)) 500)) \<and>
         (\<forall>m. fst (create env vd s) = Inl (ValueError m) \<longrightarrow>
            fst (post env d s) = Inr (Response (Error m) 400)) \<and>
         (\<forall>e. fetch_route_data env (start_location d) (finish_location d) = Inl e \<longrightarrow>
            fst (create env vd s) = Inl e) \<and>
         (\<forall>r. fetch_route_data env (start_location d) (finish_location d) = Inr r \<and>
              fuel_prices s = [] \<longrightarrow>
            fst (create env vd s) =
              Inl (ValueError ''No fuel prices available to calculate the total cost.'')) \<and>
         (\<forall>p st. fst (post env d s) = Inr (Response (Result p) st) \<longrightarrow>
            st = 200 \<and>
            (\<exists>dist. fetch_route_data env (start_location d) (finish_location d) = Inr (dist, route p) \<and>
               fst (find_optimal_fuel_stops dist s) = Inr (fuel_stops p) \<and>
               fst (calculate_total_cost (db_avg env) dist s) = Inr (total_cost p))) \<and>
         (\<forall>e. fst (create env vd s) = Inl e \<and> (\<forall>m. e \<noteq> HTTPError m) \<and> (\<forall>m. e \<noteq> ValueError m) \<longrightarrow>
            fst (post env d s) = Inl e)"
proof -
  let ?a = "start_location d" and ?b = "finish_location d"
  have vd: "vd = [(''start_location'', ?a), (''finish_location'', ?b)]"
    by (rule is_valid_Inr [OF assms])
  have post: "post env d s =
     (case create env vd s of
        (Inr result, s') \<Rightarrow> (Inr (Response (Result result) HTTP_200_OK), s')
      | (Inl (HTTPError m), s') \<Rightarrow>
          (Inr (Response (Error (''Failed to fetch route data: '' @ m))
                  HTTP_500_INTERNAL_SERVER_ERROR), s')
      | (Inl (ValueError m), s') \<Rightarrow> (Inr (Response (Error m) HTTP_400_BAD_REQUEST), s')
      | (Inl e, s') \<Rightarrow> (Inl e, s'))"
    using assms by (simp add: post_def)
  have p1: "\<forall>m. fst (create env vd s) = Inl (HTTPError m) \<longrightarrow>
      fst (post env d s) = Inr (Response (Error (''Failed to fetch route data: '' @ m)) 500)"
    by (auto simp: post HTTP_500_INTERNAL_SERVER_ERROR_def split: prod.splits)
  have p2: "\<forall>m. fst (create env vd s) = Inl (ValueError m) \<longrightarrow>
      fst (post env d s) = Inr (Response (Error m) 400)"
    by (auto simp: post HTTP_400_BAD_REQUEST_def split: prod.splits)
  have p3: "\<forall>e. fetch_route_data env ?a ?b = Inl e \<longrightarrow> fst (create env vd s) = Inl e"
    by (simp add: vd create_validated)
  have p4: "\<forall>r. fetch_route_data env ?a ?b = Inr r \<and> fuel_prices s = [] \<longrightarrow>
      fst (create env vd s) =
        Inl (ValueError ''No fuel prices available to calculate the total cost.'')"
    by (auto simp: vd create_validated find_optimal_fuel_stops_no_prices)
  have p5: "\<forall>p st. fst (post env d s) = Inr (Response (Result p) st) \<longrightarrow>
      st = 200 \<and>
      (\<exists>dist. fetch_route_data env ?a ?b = Inr (dist, route p) \<and>
         fst (find_optimal_fuel_stops dist s) = Inr (fuel_stops p) \<and>
         fst (calculate_total_cost (db_avg env) dist s) = Inr (total_cost p))"
    unfolding post vd create_validated
    by (auto simp: HTTP_200_OK_def split: sum.splits prod.splits exn.splits)
  have p6: "\<forall>e. fst (create env vd s) = Inl e \<and> (\<forall>m. e \<noteq> HTTPError m) \<and>
      (\<forall>m. e \<noteq> ValueError m) \<longrightarrow> fst (post env d s) = Inl e"
    by (auto simp: post split: prod.splits exn.splits)
  from p1 p2 p3 p4 p5 p6 show ?thesis by (intro conjI)
qed

text \<open>The example request in the five environments.\<close>

lemma is_valid_req0:
  "is_valid (\<lambda>n. geo0) req0 =
     Inr [(''start_location'', ''Seattle, WA''), (''finish_location'', ''New York, NY'')]"
  by (simp add: is_valid_cases req0_def validate_start_location_def validate_finish_location_def
        geocode_Seattle geocode_New_York is_within_usa_iff)

lemma is_valid_req0_two_calls:
  "is_valid (\<lambda>n. if n < 2 then geo0 else a) req0 =
     Inr [(''start_location'', ''Seattle, WA''), (''finish_location'', ''New York, NY'')]"
  by (simp add: is_valid_cases req0_def validate_start_location_def validate_finish_location_def
        geocode_Seattle geocode_New_York is_within_usa_iff)

text \<open>2011675 meters are 1250 miles, in float arithmetic as well.\<close>

lemma miles_2011675: "float_div 2011675 (float_round 1609.34) = 1250"
  by code_simp

lemma fetch_route_data_env0:
  "fetch_route_data env0 ''Seattle, WA'' ''New York, NY'' =
     Inr (1250, [(- 122.25, 47.625), (- 74, 40.75)])"
proof -
  have m: "float_div 2011675 (float_round (80467 / 50)) = 1250"
    using miles_2011675 by simp
  show ?thesis
    by (simp add: fetch_route_data_def env0_def geocode_Seattle geocode_New_York m)
qed

lemma fetch_route_data_env1:
  "fetch_route_data env1 ''Seattle, WA'' ''New York, NY'' =
     Inl (HTTPError ''502 Server Error: Bad Gateway'')"
  by (simp add: fetch_route_data_def env1_def geocode_Seattle geocode_New_York)

lemma fetch_route_data_env2:
  "fetch_route_data env2 ''Seattle, WA'' ''New York, NY'' =
     Inl (HTTPError ''503 Server Error: Service Unavailable'')"
  by (simp add: fetch_route_data_def env2_def geocode_location_def)

lemma fetch_route_data_env3:
  "fetch_route_data env3 ''Seattle, WA'' ''New York, NY'' = Inl IndexError"
  by (simp add: fetch_route_data_def env3_def geocode_Seattle geocode_New_York)

lemma fetch_route_data_env4:
  "fetch_route_data env4 ''Seattle, WA'' ''New York, NY'' =
     Inl (ValueError ''Location 'Seattle, WA' could not be geocoded.'')"
  by (simp add: fetch_route_data_def env4_def geocode_location_def)

lemma post_env0_db0:
  "\<exists>p. fst (post env0 req0 db0) = Inr (Response (Result p) 200)"
proof -
  have ne: "fuel_prices db0 \<noteq> []" by (simp add: db0_def)
  from first_order_by_price [OF ne] obtain c where c: "first (order_by_price db0) = Some c"
    by blast
  have v: "is_valid (geocoder env0) req0 =
     Inr [(''start_location'', ''Seattle, WA''), (''finish_location'', ''New York, NY'')]"
    by (simp add: env0_def is_valid_req0)
  show ?thesis
    by (simp add: post_def v create_validated fetch_route_data_env0
          find_optimal_fuel_stops_eq [OF c] calculate_total_cost_eq [OF ne] HTTP_200_OK_def)
qed

lemma post_env3_db0: "fst (post env3 req0 db0) = Inl IndexError"
proof -
  have v: "is_valid (geocoder env3) req0 =
     Inr [(''start_location'', ''Seattle, WA''), (''finish_location'', ''New York, NY'')]"
    by (simp add: env3_def is_valid_req0)
  show ?thesis
    by (simp add: post_def v create_validated fetch_route_data_env3)
qed

text \<open>
  Seattle to New York: a routing provider that answers 502; a geocoding provider that
  answers 503 when asked again; a geocoding provider without match when asked again; an
  empty table; the example table; a routing answer without routes.
\<close>

theorem downstream_errors_witness:
  "is_valid (geocoder env1) req0 =
     Inr [(''start_location'', ''Seattle, WA''), (''finish_location'', ''New York, NY'')] \<and>
   fst (post env1 req0 db0) =
     Inr (Response (Error ''Failed to fetch route data: 502 Server Error: Bad Gateway'') 500) \<and>
   fst (post env2 req0 db0) =
     Inr (Response (Error ''Failed to fetch route data: 503 Server Error: Service Unavailable'')
            500) \<and>
   fst (post env4 req0 db0) =
     Inr (Response (Error ''Location 'Seattle, WA' could not be geocoded.'') 400) \<and>
   fst (post env0 req0 \<lparr>fuel_prices = []\<rparr>) =
     Inr (Response (Error ''No fuel prices available to calculate the total cost.'') 400) \<and>
   (\<exists>p. fst (post env0 req0 db0) = Inr (Response (Result p) 200) \<and>
      fetch_route_data env0 ''Seattle, WA'' ''New York, NY'' = Inr (1250, route p) \<and>
      fst (find_optimal_fuel_stops 1250 db0) = Inr (fuel_stops p) \<and>
      fst (calculate_total_cost avg15 1250 db0) = Inr (total_cost p)) \<and>
   fetch_route_data env3 ''Seattle, WA'' ''New York, NY'' = Inl IndexError \<and>
   fst (post env3 req0 db0) = Inl IndexError"
proof -
  let ?vd = "[(''start_location'', ''Seattle, WA''), (''finish_location'', ''New York, NY'')]"
  have v0: "is_valid (geocoder env0) req0 = Inr ?vd" by (simp add: env0_def is_valid_req0)
  have v1: "is_valid (geocoder env1) req0 = Inr ?vd" by (simp add: env1_def is_valid_req0)
  have v2: "is_valid (geocoder env2) req0 = Inr ?vd"
    by (simp add: env2_def is_valid_req0_two_calls)
  have v3: "is_valid (geocoder env3) req0 = Inr ?vd" by (simp add: env3_def is_valid_req0)
  have v4: "is_valid (geocoder env4) req0 = Inr ?vd"
    by (simp add: env4_def is_valid_req0_two_calls)
  have s: "start_location req0 = ''Seattle, WA''" "finish_location req0 = ''New York, NY''"
    by (simp_all add: req0_def)
  note t1 = downstream_errors [OF v1, of db0, unfolded s]
  note t2 = downstream_errors [OF v2, of db0, unfolded s]
  note t4 = downstream_errors [OF v4, of db0, unfolded s]
  note t0e = downstream_errors [OF v0, of "\<lparr>fuel_prices = []\<rparr>", unfolded s]
  note t0 = downstream_errors [OF v0, of db0, unfolded s]
  note t3 = downstream_errors [OF v3, of db0, unfolded s]
  have "fst (create env1 ?vd db0) = Inl (HTTPError ''502 Server Error: Bad Gateway'')"
    using t1 fetch_route_data_env1 by blast
  with t1 have a: "fst (post env1 req0 db0) =
     Inr (Response (Error ''Failed to fetch route data: 502 Server Error: Bad Gateway'') 500)"
    by simp
  have "fst (create env2 ?vd db0) = Inl (HTTPError ''503 Server Error: Service Unavailable'')"
    using t2 fetch_route_data_env2 by blast
  with t2 have b: "fst (post env2 req0 db0) =
     Inr (Response (Error ''Failed to fetch route data: 503 Server Error: Service Unavailable'')
            500)"
    by simp
  have "fst (create env4 ?vd db0) =
      Inl (ValueError ''Location 'Seattle, WA' could not be geocoded.'')"
    using t4 fetch_route_data_env4 by blast
  with t4 have c: "fst (post env4 req0 db0) =
     Inr (Response (Error ''Location 'Seattle, WA' could not be geocoded.'') 400)"
    by simp
  have "fst (create env0 ?vd \<lparr>fuel_prices = []\<rparr>) =
      Inl (ValueError ''No fuel prices available to calculate the total cost.'')"
    using t0e fetch_route_data_env0 by simp
  with t0e have d: "fst (post env0 req0 \<lparr>fuel_prices = []\<rparr>) =
     Inr (Response (Error ''No fuel prices available to calculate the total cost.'') 400)"
    by simp
  from post_env0_db0 obtain p where p: "fst (post env0 req0 db0) = Inr (Response (Result p) 200)"
    by blast
  have avg: "db_avg env0 = avg15" by (simp add: env0_def)
  from t0 p obtain dist where
    dist: "fetch_route_data env0 ''Seattle, WA'' ''New York, NY'' = Inr (dist, route p)"
      "fst (find_optimal_fuel_stops dist db0) = Inr (fuel_stops p)"
      "fst (calculate_total_cost avg15 dist db0) = Inr (total_cost p)"
    unfolding avg by blast
  from dist(1) fetch_route_data_env0 have "dist = 1250" by simp
  with p dist have e: "\<exists>p. fst (post env0 req0 db0) = Inr (Response (Result p) 200) \<and>
      fetch_route_data env0 ''Seattle, WA'' ''New York, NY'' = Inr (1250, route p) \<and>
      fst (find_optimal_fuel_stops 1250 db0) = Inr (fuel_stops p) \<and>
      fst (calculate_total_cost avg15 1250 db0) = Inr (total_cost p)"
    by blast
  have "fst (create env3 ?vd db0) = Inl IndexError"
    using t3 fetch_route_data_env3 by blast
  with t3 have f: "fst (post env3 req0 db0) = Inl IndexError" by simp
  from v1 a b c d e fetch_route_data_env3 f show ?thesis by (intro conjI)
qed

text \<open>
  Claim C6 as stated fails for a routing answer without routes. Validation succeeds, the
  routing provider answers with an empty list of routes, and \<^verbatim>\<open>fetch_route_data\<close> raises
  an \<^verbatim>\<open>IndexError\<close>, which \<^verbatim>\<open>post\<close> catches in neither handler: no top-level error is
  returned.
\<close>

theorem empty_routes_not_answered:
  "is_valid (geocoder env3) req0 =
     Inr [(''start_location'', ''Seattle, WA''), (''finish_location'', ''New York, NY'')] \<and>
   router env3 (- 122.25, 47.625) (- 74, 40.75) = RouteData [] \<and>
   fetch_route_data env3 ''Seattle, WA'' ''New York, NY'' = Inl IndexError \<and>
   fst (post env3 req0 db0) = Inl IndexError"
proof -
  have v: "is_valid (geocoder env3) req0 =
     Inr [(''start_location'', ''Seattle, WA''), (''finish_location'', ''New York, NY'')]"
    by (simp add: env3_def is_valid_req0)
  have r: "router env3 (- 122.25, 47.625) (- 74, 40.75) = RouteData []"
    by (simp add: env3_def)
  from v r fetch_route_data_env3 post_env3_db0 show ?thesis by (intro conjI)
qed

end
